theory Spec2Isabelle
  imports Main
begin

section \<open>JavaScript strings\<close>

text \<open>
  The interceptor works on URLs as plain strings. A JavaScript string is modelled as a
  \<^typ>\<open>string\<close>; all strings the interceptor itself writes are ASCII. The functions of
  this section are the methods of \<^verbatim>\<open>String.prototype\<close> that the source calls.
\<close>

text \<open>\<^verbatim>\<open>s.startsWith(t)\<close>.\<close>

fun startsWith :: "string \<Rightarrow> string \<Rightarrow> bool" where
  "startsWith s [] = True"
| "startsWith [] (c # t) = False"
| "startsWith (a # s) (c # t) = (a = c \<and> startsWith s t)"

text \<open>\<^verbatim>\<open>s.includes(t)\<close>: \<open>t\<close> occurs in \<open>s\<close> as a contiguous substring.\<close>

fun includes_str :: "string \<Rightarrow> string \<Rightarrow> bool" where
  "includes_str [] t = (t = [])"
| "includes_str (c # s) t = (startsWith (c # s) t \<or> includes_str s t)"

text \<open>
  The first occurrence of \<open>pat\<close> in a string: the text before it and the text after it.
\<close>

fun findFirst :: "string \<Rightarrow> string \<Rightarrow> (string \<times> string) option" where
  "findFirst pat [] = (if pat = [] then Some ([], []) else None)"
| "findFirst pat (c # s) =
     (if startsWith (c # s) pat then Some ([], drop (length pat) (c # s))
      else map_option (\<lambda>(b, a). (c # b, a)) (findFirst pat s))"

text \<open>
  The replacement text of \<^verbatim>\<open>s.replace(pat, template)\<close> for a string pattern
  (ECMAScript's GetSubstitution with no capture groups): in the template \<^verbatim>\<open>$$\<close> stands
  for a dollar sign, \<^verbatim>\<open>$&\<close> for the matched text, \<^verbatim>\<open>$`\<close> for the text before the
  match and \<^verbatim>\<open>$'\<close> for the text after it; every other character, a dollar sign before
  a digit or \<^verbatim>\<open><\<close> included, stands for itself.
\<close>

fun getSubstitution :: "string \<Rightarrow> string \<Rightarrow> string \<Rightarrow> string \<Rightarrow> string" where
  "getSubstitution m b a (x # c # t) =
     (if x = CHR ''$'' \<and> c = CHR ''$'' then CHR ''$'' # getSubstitution m b a t
      else if x = CHR ''$'' \<and> c = CHR ''&'' then m @ getSubstitution m b a t
      else if x = CHR ''$'' \<and> c = CHR 0x60 then b @ getSubstitution m b a t
      else if x = CHR ''$'' \<and> c = CHR 0x27 then a @ getSubstitution m b a t
      else x # getSubstitution m b a (c # t))"
| "getSubstitution m b a t = t"

text \<open>
  \<^verbatim>\<open>s.replace(pat, template)\<close> with a string pattern: only the first occurrence is
  replaced, and a string without the pattern is returned as it is.
\<close>

definition replace_str :: "string \<Rightarrow> string \<Rightarrow> string \<Rightarrow> string" where
  "replace_str s pat template =
     (case findFirst pat s of
        None \<Rightarrow> s
      | Some (b, a) \<Rightarrow> b @ getSubstitution pat b a template @ a)"

text \<open>
  \<^verbatim>\<open>proxyUrl.replace(/\/$/, '')\<close>: without the multiline flag \<^verbatim>\<open>$\<close> matches at the end of
  the input only, so exactly one trailing slash is removed.
\<close>

definition stripTrailingSlash :: "string \<Rightarrow> string" where
  "stripTrailingSlash s = (if s \<noteq> [] \<and> last s = CHR ''/'' then butlast s else s)"

text \<open>
  \<^verbatim>\<open>newUrl.replace(/([^:]\/)\/+/g, "$1")\<close>: scanning from the left, a character other than
  a colon that is followed by two or more slashes keeps one slash; the scan goes on
  after the slashes it has consumed.
\<close>

function collapseSlashes :: "string \<Rightarrow> string" where
  "collapseSlashes (c # d # e # rest) =
     (if c \<noteq> CHR '':'' \<and> d = CHR ''/'' \<and> e = CHR ''/''
      then c # d # collapseSlashes (dropWhile (\<lambda>x. x = CHR ''/'') rest)
      else c # collapseSlashes (d # e # rest))"
| "collapseSlashes [c, d] = [c, d]"
| "collapseSlashes [c] = [c]"
| "collapseSlashes [] = []"
  by pat_completeness auto
termination
  by (relation "measure length") (auto simp: length_dropWhile_le le_imp_less_Suc less_SucI)

section \<open>The URL rewrite engine\<close>

definition TARGET_HOST :: string where
  "TARGET_HOST = ''generativelanguage.googleapis.com''"

text \<open>
  The rewrite of \<^verbatim>\<open>patchedFetch\<close> (the statements between \<^verbatim>\<open>const targetOrigin\<close> and
  the slash collapse), as a function of the request URL and the configured proxy URL.
  Each \<^verbatim>\<open>newUrl = ...\<close> of the source is one binding of the \<open>let\<close>.
\<close>

definition rewriteUrl :: "string \<Rightarrow> string \<Rightarrow> string" where
  "rewriteUrl urlStr currentProxyUrl =
     (let targetOrigin = ''https://generativelanguage.googleapis.com'';
          newUrl = replace_str urlStr targetOrigin currentProxyUrl;
          newUrl =
            (if includes_str newUrl ''/v1/v1beta/''
             then replace_str newUrl ''/v1/v1beta/'' ''/v1/''
             else if includes_str newUrl ''/v1/v1/''
             then replace_str newUrl ''/v1/v1/'' ''/v1/''
             else newUrl);
          newUrl =
            (if includes_str newUrl ''aiplatform.googleapis.com''
                \<and> \<not> includes_str newUrl ''publishers/google''
             then (if includes_str newUrl ''/v1/models/''
                   then replace_str newUrl ''/v1/models/'' ''/v1/publishers/google/models/''
                   else newUrl)
             else newUrl);
          newUrl =
            (if includes_str newUrl ''/publishers/google/v1beta/models''
             then replace_str newUrl ''/publishers/google/v1beta/models''
                    ''/publishers/google/models''
             else if includes_str newUrl ''/publishers/google/v1/models''
             then replace_str newUrl ''/publishers/google/v1/models''
                    ''/publishers/google/models''
             else newUrl);
          newUrl =
            (if includes_str newUrl ''/v1beta/v1beta''
             then replace_str newUrl ''/v1beta/v1beta'' ''/v1beta''
             else newUrl)
      in collapseSlashes newUrl)"

text \<open>
  The conditions under which one of the substring rules of \<^const>\<open>rewriteUrl\<close> changes a
  URL: the target origin is still there, or one of the conditions of the source's
  \<^verbatim>\<open>if\<close> statements holds.
\<close>

definition ruleApplies :: "string \<Rightarrow> bool" where
  "ruleApplies u \<longleftrightarrow>
     includes_str u ''https://generativelanguage.googleapis.com''
     \<or> includes_str u ''/v1/v1beta/''
     \<or> includes_str u ''/v1/v1/''
     \<or> (includes_str u ''aiplatform.googleapis.com''
          \<and> \<not> includes_str u ''publishers/google''
          \<and> includes_str u ''/v1/models/'')
     \<or> includes_str u ''/publishers/google/v1beta/models''
     \<or> includes_str u ''/publishers/google/v1/models''
     \<or> includes_str u ''/v1beta/v1beta''"

section \<open>Thrown values and the error utilities\<close>

text \<open>
  What JavaScript code can throw, and what a promise can reject with:
  \<^item> an object that is an instance of \<^verbatim>\<open>Error\<close> (of \<^verbatim>\<open>Error\<close> itself, of \<^verbatim>\<open>TypeError\<close> or of
    another subclass such as \<^verbatim>\<open>DOMException\<close>), with its \<^verbatim>\<open>name\<close> and \<^verbatim>\<open>message\<close>; the
    \<^verbatim>\<open>name\<close> is a property of its own, which the source assigns after construction;
  \<^item> any other value for which \<^verbatim>\<open>String(value)\<close> gives a string, represented by that
    string;
  \<^item> any other value for which \<^verbatim>\<open>String(value)\<close> throws, such as
    \<^verbatim>\<open>Object.create(null)\<close> or an object whose \<^verbatim>\<open>toString\<close> throws, represented by the
    value that the conversion throws.
\<close>

datatype error_class = Error | TypeError | OtherError

record error_object =
  err_class :: error_class
  err_name :: string
  err_message :: string

datatype js_value =
  ErrorValue error_object
| OtherValue string
| UnconvertibleValue js_value

text \<open>\<^verbatim>\<open>isNetworkError\<close> of \<^verbatim>\<open>utils/errorUtils.ts\<close>.\<close>

definition isNetworkError :: "js_value \<Rightarrow> bool" where
  "isNetworkError error =
     (case error of
        OtherValue _ \<Rightarrow> False
      | UnconvertibleValue _ \<Rightarrow> False
      | ErrorValue e \<Rightarrow>
          err_name e = ''NetworkError''
          \<or> (err_class e = TypeError \<and> includes_str (err_message e) ''Load failed''))"

text \<open>
  \<^verbatim>\<open>createNetworkError\<close> of \<^verbatim>\<open>utils/errorUtils.ts\<close>. A call that leaves the optional
  \<^verbatim>\<open>originalError\<close> out passes \<^verbatim>\<open>undefined\<close>, which is \<open>OtherValue ''undefined''\<close>.
\<close>

definition createNetworkError :: "string \<Rightarrow> js_value \<Rightarrow> error_object" where
  "createNetworkError contextMessage originalError =
     (let errorMessage =
            (case originalError of
               ErrorValue e \<Rightarrow> contextMessage @ '' Original error: '' @ err_message e
             | OtherValue _ \<Rightarrow> contextMessage
             | UnconvertibleValue _ \<Rightarrow> contextMessage)
      in \<lparr>err_class = Error, err_name = ''NetworkError'', err_message = errorMessage\<rparr>)"

section \<open>The platform's URL objects\<close>

text \<open>
  A parsed URL, with the components of the URL Standard. \<open>url_host\<close> is \<open>None\<close> for a
  URL without an authority (\<^verbatim>\<open>mailto:x\<close>) and holds the host together with the port
  otherwise, as the \<^verbatim>\<open>host\<close> property of a \<^verbatim>\<open>URL\<close> object does. \<open>url_query\<close> and
  \<open>url_fragment\<close> are stored without their leading \<^verbatim>\<open>?\<close> and \<^verbatim>\<open>#\<close>.
\<close>

record url =
  url_scheme :: string
  url_username :: string
  url_password :: string
  url_host :: "string option"
  url_pathname :: string
  url_query :: "string option"
  url_fragment :: "string option"

text \<open>
  The constructor \<^verbatim>\<open>new URL(s)\<close> is the platform's parser. It is a parameter of every
  function that calls it: a function from strings to URLs that is \<open>None\<close> where the
  constructor throws its \<^verbatim>\<open>TypeError\<close>.
\<close>

type_synonym url_parser = "string \<Rightarrow> url option"

text \<open>The getters \<^verbatim>\<open>url.protocol\<close> and \<^verbatim>\<open>url.search\<close>.\<close>

definition protocol :: "url \<Rightarrow> string" where
  "protocol u = url_scheme u @ '':''"

definition search :: "url \<Rightarrow> string" where
  "search u =
     (case url_query u of
        None \<Rightarrow> []
      | Some q \<Rightarrow> if q = [] then [] else CHR ''?'' # q)"

text \<open>\<^verbatim>\<open>url.toString()\<close>: the URL Standard's serializer.\<close>

definition href :: "url \<Rightarrow> string" where
  "href u =
     url_scheme u @ '':''
     @ (case url_host u of
          Some h \<Rightarrow>
            ''//''
            @ (if url_username u \<noteq> [] \<or> url_password u \<noteq> []
               then url_username u
                    @ (if url_password u \<noteq> [] then CHR '':'' # url_password u else [])
                    @ ''@''
               else [])
            @ h
        | None \<Rightarrow> if startsWith (url_pathname u) ''//'' then ''/.'' else [])
     @ url_pathname u
     @ (case url_query u of None \<Rightarrow> [] | Some q \<Rightarrow> CHR ''?'' # q)
     @ (case url_fragment u of None \<Rightarrow> [] | Some f \<Rightarrow> CHR ''#'' # f)"

text \<open>
  The assignments \<^verbatim>\<open>url.username = ''\<close> and \<^verbatim>\<open>url.password = ''\<close>: the setters do
  nothing on a URL that cannot have credentials (no host, an empty host, or the
  \<^verbatim>\<open>file\<close> scheme).
\<close>

definition cannotHaveCredentials :: "url \<Rightarrow> bool" where
  "cannotHaveCredentials u \<longleftrightarrow>
     url_host u = None \<or> url_host u = Some [] \<or> url_scheme u = ''file''"

definition clearUsername :: "url \<Rightarrow> url" where
  "clearUsername u = (if cannotHaveCredentials u then u else u\<lparr>url_username := []\<rparr>)"

definition clearPassword :: "url \<Rightarrow> url" where
  "clearPassword u = (if cannotHaveCredentials u then u else u\<lparr>url_password := []\<rparr>)"

text \<open>Percent-encoding of one byte: \<^verbatim>\<open>%\<close> and two upper-case hexadecimal digits.\<close>

definition hexDigit :: "nat \<Rightarrow> char" where
  "hexDigit n = ''0123456789ABCDEF'' ! (n mod 16)"

definition percentEncodeByte :: "char \<Rightarrow> string" where
  "percentEncodeByte c =
     [CHR ''%'', hexDigit (of_char c div 16), hexDigit (of_char c mod 16)]"

definition percentEncode :: "(char \<Rightarrow> bool) \<Rightarrow> string \<Rightarrow> string" where
  "percentEncode inSet s = concat (map (\<lambda>c. if inSet c then percentEncodeByte c else [c]) s)"

text \<open>
  The percent-encode sets of the URL Standard for a query and for a fragment: the C0
  controls and everything above \<^verbatim>\<open>~\<close>, then space, \<^verbatim>\<open>"\<close>, \<^verbatim>\<open><\<close>, \<^verbatim>\<open>>\<close>, and \<^verbatim>\<open>#\<close> (query)
  or \<^verbatim>\<open>`\<close> (fragment); in the query of a special scheme also \<^verbatim>\<open>'\<close>.
\<close>

definition c0ControlSet :: "char \<Rightarrow> bool" where
  "c0ControlSet c \<longleftrightarrow> (of_char c :: nat) \<le> 0x1F \<or> (of_char c :: nat) > 0x7E"

definition isSpecial :: "url \<Rightarrow> bool" where
  "isSpecial u \<longleftrightarrow> url_scheme u \<in> set [''http'', ''https'', ''ftp'', ''ws'', ''wss'', ''file'']"

definition queryEncodeSet :: "bool \<Rightarrow> char \<Rightarrow> bool" where
  "queryEncodeSet special c \<longleftrightarrow>
     c0ControlSet c \<or> c \<in> set [CHR '' '', CHR 0x22, CHR ''#'', CHR ''<'', CHR ''>'']
     \<or> (special \<and> c = CHR 0x27)"

definition fragmentEncodeSet :: "char \<Rightarrow> bool" where
  "fragmentEncodeSet c \<longleftrightarrow>
     c0ControlSet c \<or> c \<in> set [CHR '' '', CHR 0x22, CHR ''<'', CHR ''>'', CHR 0x60]"

definition removeTabNewline :: "string \<Rightarrow> string" where
  "removeTabNewline s = filter (\<lambda>c. c \<notin> set [CHR 0x09, CHR 0x0A, CHR 0x0D]) s"

text \<open>
  The assignments \<^verbatim>\<open>url.search = value\<close> and \<^verbatim>\<open>url.hash = value\<close>: the empty string
  removes the component; otherwise one leading \<^verbatim>\<open>?\<close> (or \<^verbatim>\<open>#\<close>) is dropped and the
  rest is stored percent-encoded.
\<close>

definition set_search :: "url \<Rightarrow> string \<Rightarrow> url" where
  "set_search u v =
     (if v = [] then u\<lparr>url_query := None\<rparr>
      else u\<lparr>url_query :=
               Some (percentEncode (queryEncodeSet (isSpecial u))
                       (removeTabNewline (if hd v = CHR ''?'' then tl v else v)))\<rparr>)"

definition set_hash :: "url \<Rightarrow> string \<Rightarrow> url" where
  "set_hash u v =
     (if v = [] then u\<lparr>url_fragment := None\<rparr>
      else u\<lparr>url_fragment :=
               Some (percentEncode fragmentEncodeSet
                       (removeTabNewline (if hd v = CHR ''#'' then tl v else v)))\<rparr>)"

section \<open>The platform's URLSearchParams\<close>

text \<open>
  A \<^verbatim>\<open>URLSearchParams\<close> object is its list of name-value pairs, in order; names can
  repeat. Names and values are byte strings here: percent-decoding gives bytes, and
  the source compares names with ASCII strings only.
\<close>

type_synonym search_params = "(string \<times> string) list"

fun splitOn :: "char \<Rightarrow> string \<Rightarrow> string list" where
  "splitOn sep [] = [[]]"
| "splitOn sep (c # s) =
     (if c = sep then [] # splitOn sep s
      else (case splitOn sep s of
              [] \<Rightarrow> [[c]]
            | piece # pieces \<Rightarrow> (c # piece) # pieces))"

definition hexValue :: "char \<Rightarrow> nat option" where
  "hexValue c =
     (let n = of_char c :: nat in
      if 48 \<le> n \<and> n \<le> 57 then Some (n - 48)
      else if 65 \<le> n \<and> n \<le> 70 then Some (n - 55)
      else if 97 \<le> n \<and> n \<le> 102 then Some (n - 87)
      else None)"

fun percentDecode :: "string \<Rightarrow> string" where
  "percentDecode (p # x # y # s) =
     (case (hexValue x, hexValue y) of
        (Some a, Some b) \<Rightarrow>
          (if p = CHR ''%'' then char_of (16 * a + b) # percentDecode s
           else p # percentDecode (x # y # s))
      | _ \<Rightarrow> p # percentDecode (x # y # s))"
| "percentDecode s = s"

text \<open>
  \<^verbatim>\<open>new URLSearchParams(init)\<close> for a string: one leading \<^verbatim>\<open>?\<close> is dropped, and the
  rest is read by the \<^verbatim>\<open>application/x-www-form-urlencoded\<close> parser.
\<close>

definition parseUrlencoded :: "string \<Rightarrow> search_params" where
  "parseUrlencoded input =
     map (\<lambda>bytes.
            let paramName = takeWhile (\<lambda>c. c \<noteq> CHR ''='') bytes;
                paramValue = drop (length paramName + 1) bytes;
                plusToSpace = map (\<lambda>c. if c = CHR ''+'' then CHR '' '' else c)
            in (percentDecode (plusToSpace paramName), percentDecode (plusToSpace paramValue)))
         (filter (\<lambda>bytes. bytes \<noteq> []) (splitOn CHR ''&'' input))"

definition newURLSearchParams :: "string \<Rightarrow> search_params" where
  "newURLSearchParams init =
     parseUrlencoded (if init \<noteq> [] \<and> hd init = CHR ''?'' then tl init else init)"

text \<open>\<^verbatim>\<open>params.delete(name)\<close>: every pair with exactly this name goes.\<close>

definition deleteParam :: "string \<Rightarrow> search_params \<Rightarrow> search_params" where
  "deleteParam paramName params = filter (\<lambda>(n, v). n \<noteq> paramName) params"

text \<open>\<^verbatim>\<open>params.toString()\<close>: the \<^verbatim>\<open>application/x-www-form-urlencoded\<close> serializer.\<close>

definition urlencodedKeeps :: "char \<Rightarrow> bool" where
  "urlencodedKeeps c \<longleftrightarrow>
     (let n = of_char c :: nat in
      n = 0x2A \<or> n = 0x2D \<or> n = 0x2E \<or> n = 0x5F
      \<or> (0x30 \<le> n \<and> n \<le> 0x39) \<or> (0x41 \<le> n \<and> n \<le> 0x5A) \<or> (0x61 \<le> n \<and> n \<le> 0x7A))"

definition urlencodedBytes :: "string \<Rightarrow> string" where
  "urlencodedBytes s =
     concat (map (\<lambda>c. if c = CHR '' '' then ''+''
                       else if urlencodedKeeps c then [c]
                       else percentEncodeByte c) s)"

fun joinWith :: "string \<Rightarrow> string list \<Rightarrow> string" where
  "joinWith sep [] = []"
| "joinWith sep [x] = x"
| "joinWith sep (x # y # xs) = x @ sep @ joinWith sep (y # xs)"

definition paramsToString :: "search_params \<Rightarrow> string" where
  "paramsToString params =
     joinWith ''&'' (map (\<lambda>(n, v). urlencodedBytes n @ ''='' @ urlencodedBytes v) params)"

text \<open>\<^verbatim>\<open>s.toLowerCase()\<close>, on ASCII letters.\<close>

definition toLowerCase :: "string \<Rightarrow> string" where
  "toLowerCase s =
     map (\<lambda>c. if 65 \<le> (of_char c :: nat) \<and> (of_char c :: nat) \<le> 90
               then char_of ((of_char c :: nat) + 32) else c) s"

section \<open>The URL sanitizer\<close>

definition sensitiveParams :: "string list" where
  "sensitiveParams =
     [''key'', ''apikey'', ''api_key'', ''token'', ''access_token'', ''auth'', ''authorization'']"

text \<open>
  The loop \<^verbatim>\<open>for (const [paramName, paramValue] of params.entries())\<close> of
  \<^verbatim>\<open>sanitizeUrlForDisplay\<close>. The iterator of a \<^verbatim>\<open>URLSearchParams\<close> object is live: it
  holds an index into the object's current list, and each step reads the pair at
  the index from the list as it is then and moves the index on by one. The body
  deletes from the very list that is iterated. The loop's state is the index, the list
  and \<^verbatim>\<open>hasSensitiveParams\<close>.
\<close>

function sanitizeLoop :: "nat \<Rightarrow> search_params \<Rightarrow> bool \<Rightarrow> search_params \<times> bool" where
  "sanitizeLoop index params hasSensitiveParams =
     (if index < length params
      then (if toLowerCase (fst (params ! index)) \<in> set sensitiveParams
            then sanitizeLoop (index + 1) (deleteParam (fst (params ! index)) params) True
            else sanitizeLoop (index + 1) params hasSensitiveParams)
      else (params, hasSensitiveParams))"
  by pat_completeness auto
termination
proof (relation "measure (\<lambda>(index, params, hasSensitiveParams). length params - index)")
  fix index :: nat and params :: search_params and hasSensitiveParams :: bool
  assume "index < length params"
  moreover have "length (deleteParam (fst (params ! index)) params) \<le> length params"
    by (simp add: deleteParam_def)
  ultimately show "((index + 1, deleteParam (fst (params ! index)) params, True),
                    (index, params, hasSensitiveParams))
                   \<in> measure (\<lambda>(index, params, hasSensitiveParams). length params - index)"
    by simp
qed simp_all

declare sanitizeLoop.simps [simp del]

text \<open>
  \<^verbatim>\<open>sanitizeUrlForDisplay\<close>. The \<^verbatim>\<open>try\<close> block is \<open>sanitizeTry\<close>: \<open>None\<close> where it throws,
  which only \<^verbatim>\<open>new URL(url)\<close> can do. The \<^verbatim>\<open>catch\<close> returns the placeholder.
\<close>

definition sanitizeTry :: "url_parser \<Rightarrow> string \<Rightarrow> string option" where
  "sanitizeTry newURL url =
     (case newURL url of
        None \<Rightarrow> None
      | Some urlObj \<Rightarrow>
          (let urlObj =
                 (if url_username urlObj \<noteq> [] \<or> url_password urlObj \<noteq> []
                  then clearPassword (clearUsername urlObj)
                  else urlObj);
               params = newURLSearchParams (search urlObj);
               (params, hasSensitiveParams) = sanitizeLoop 0 params False;
               urlObj = set_search urlObj (paramsToString params);
               urlObj =
                 (if hasSensitiveParams then set_hash urlObj ''#sensitive_params_removed''
                  else urlObj)
           in Some (href urlObj)))"

definition sanitizeUrlForDisplay :: "url_parser \<Rightarrow> string \<Rightarrow> string" where
  "sanitizeUrlForDisplay newURL url =
     (case sanitizeTry newURL url of
        Some sanitized \<Rightarrow> sanitized
      | None \<Rightarrow> ''[malformed URL - unable to sanitize safely]'')"

section \<open>A reference URL parser\<close>

text \<open>
  The general theorems below hold for every parser. To evaluate the interceptor on
  concrete URLs a parser is needed, and \<open>parseSimpleURL\<close> is one for the URLs that the
  URL Standard's parser takes apart without changing a character: those of the shape
  \<^verbatim>\<open>scheme://[user[:password]@]host[/path][?query][#fragment]\<close>, written with letters,
  digits and \<^verbatim>\<open>-._~:/?#@!$&()*+,;=%\<close> only, with a lower-case host name that has no
  port and is not numeric, and with no dot segments in the path. On such a URL it
  gives the components the standard gives. A string without a scheme is refused by
  the platform and by \<open>parseSimpleURL\<close> alike. Every other string (one the
  standard would normalise, or accept in another shape) is outside this parser and is
  refused too; no theorem below evaluates it on such a string.
\<close>

definition isAsciiAlpha :: "char \<Rightarrow> bool" where
  "isAsciiAlpha c \<longleftrightarrow>
     (let n = of_char c :: nat in (65 \<le> n \<and> n \<le> 90) \<or> (97 \<le> n \<and> n \<le> 122))"

definition isAsciiDigit :: "char \<Rightarrow> bool" where
  "isAsciiDigit c \<longleftrightarrow> (let n = of_char c :: nat in 48 \<le> n \<and> n \<le> 57)"

definition isLowerAlpha :: "char \<Rightarrow> bool" where
  "isLowerAlpha c \<longleftrightarrow> (let n = of_char c :: nat in 97 \<le> n \<and> n \<le> 122)"

definition simpleChar :: "char \<Rightarrow> bool" where
  "simpleChar c \<longleftrightarrow> isAsciiAlpha c \<or> isAsciiDigit c \<or> c \<in> set ''-._~:/?#@!$&()*+,;=%''"

definition schemeChar :: "char \<Rightarrow> bool" where
  "schemeChar c \<longleftrightarrow> isAsciiAlpha c \<or> isAsciiDigit c \<or> c \<in> set ''+-.''"

definition simpleUserinfo :: "string \<Rightarrow> bool" where
  "simpleUserinfo s \<longleftrightarrow> list_all (\<lambda>c. c \<notin> set '':;=@'') s"

definition simpleHost :: "string \<Rightarrow> bool" where
  "simpleHost h \<longleftrightarrow>
     h \<noteq> []
     \<and> list_all (\<lambda>c. isLowerAlpha c \<or> isAsciiDigit c \<or> c \<in> set ''.-'') h
     \<and> list_all (\<lambda>label. label \<noteq> []) (splitOn CHR ''.'' h)
     \<and> isLowerAlpha (hd (last (splitOn CHR ''.'' h)))
     \<and> \<not> includes_str h ''xn--''"

definition simplePath :: "string \<Rightarrow> bool" where
  "simplePath p \<longleftrightarrow> \<not> includes_str p ''/.'' \<and> \<not> includes_str p ''/%2''"

definition parseSimpleURL :: url_parser where
  "parseSimpleURL s =
     (let schemePart = takeWhile (\<lambda>c. c \<noteq> CHR '':'') s;
          afterScheme = drop (length schemePart) s;
          rest = drop 3 afterScheme;
          authority = takeWhile (\<lambda>c. c \<notin> set ''/?#'') rest;
          afterAuthority = drop (length authority) rest;
          hasUserinfo = (CHR ''@'' \<in> set authority);
          userinfo = (if hasUserinfo then takeWhile (\<lambda>c. c \<noteq> CHR ''@'') authority else []);
          hostPart = (if hasUserinfo then drop (length userinfo + 1) authority else authority);
          user = takeWhile (\<lambda>c. c \<noteq> CHR '':'') userinfo;
          pass = drop (length user + 1) userinfo;
          path = takeWhile (\<lambda>c. c \<notin> set ''?#'') afterAuthority;
          afterPath = drop (length path) afterAuthority;
          queryPart = takeWhile (\<lambda>c. c \<noteq> CHR ''#'') afterPath;
          fragmentPart = drop (length queryPart) afterPath;
          scheme = toLowerCase schemePart
      in if schemePart \<noteq> [] \<and> isAsciiAlpha (hd schemePart) \<and> list_all schemeChar schemePart
            \<and> startsWith afterScheme ''://'' \<and> list_all simpleChar s
            \<and> scheme \<noteq> ''file''
            \<and> simpleUserinfo user \<and> simpleUserinfo pass
            \<and> simpleHost hostPart \<and> simplePath path
         then Some \<lparr>url_scheme = scheme,
                    url_username = user,
                    url_password = pass,
                    url_host = Some hostPart,
                    url_pathname =
                      (if path = [] \<and> scheme \<in> set [''http'', ''https'', ''ftp'', ''ws'', ''wss'']
                       then ''/'' else path),
                    url_query = (if queryPart = [] then None else Some (tl queryPart)),
                    url_fragment = (if fragmentPart = [] then None else Some (tl fragmentPart))\<rparr>
         else None)"

section \<open>The interceptor's state\<close>

text \<open>
  A function that can stand in \<^verbatim>\<open>window.fetch\<close>: the closure \<^verbatim>\<open>patchedFetch\<close> that
  \<^verbatim>\<open>mount\<close> creates and marks, or any other function (the browser's own \<^verbatim>\<open>fetch\<close>,
  another library's wrapper), known by a number and by whether it carries a truthy
  \<^verbatim>\<open>__isAllModelChatInterceptor\<close> property.
\<close>

datatype fetch_function = ForeignFetch nat bool | PatchedFetch

fun isAllModelChatInterceptor :: "fetch_function \<Rightarrow> bool" where
  "isAllModelChatInterceptor (ForeignFetch i marked) = marked"
| "isAllModelChatInterceptor PatchedFetch = True"

text \<open>
  The module's variables \<^verbatim>\<open>originalFetch\<close>, \<^verbatim>\<open>currentProxyUrl\<close> and
  \<^verbatim>\<open>isInterceptorEnabled\<close>, and the global \<^verbatim>\<open>window.fetch\<close>.
\<close>

record interceptor_state =
  window_fetch :: fetch_function
  originalFetch :: fetch_function
  currentProxyUrl :: "string option"
  isInterceptorEnabled :: bool

text \<open>The state after the module has been loaded.\<close>

definition moduleLoaded :: "fetch_function \<Rightarrow> interceptor_state" where
  "moduleLoaded f =
     \<lparr>window_fetch = f, originalFetch = f, currentProxyUrl = None,
      isInterceptorEnabled = False\<rparr>"

text \<open>
  \<^verbatim>\<open>networkInterceptor.configure\<close>. A \<^verbatim>\<open>string | null\<close> is a \<^typ>\<open>string option\<close>; both
  \<^verbatim>\<open>null\<close> and the empty string are falsy. The function is the state after a call
  that returns; its calls of \<^verbatim>\<open>logService\<close> hand diagnostics to the logging service and
  change no variable of the module, and are left out (as is the one in \<^verbatim>\<open>mount\<close>).
\<close>

definition configure ::
  "url_parser \<Rightarrow> bool \<Rightarrow> string option \<Rightarrow> interceptor_state \<Rightarrow> interceptor_state" where
  "configure newURL enabled proxyUrl st =
     (let st = st\<lparr>isInterceptorEnabled := enabled,
                  currentProxyUrl :=
                    (case proxyUrl of
                       Some p \<Rightarrow> if p \<noteq> [] then Some (stripTrailingSlash p) else None
                     | None \<Rightarrow> None)\<rparr>
      in case currentProxyUrl st of
           None \<Rightarrow> st
         | Some p \<Rightarrow>
             if isInterceptorEnabled st \<and> p \<noteq> []
             then (case newURL p of
                     Some url \<Rightarrow>
                       if \<not> startsWith (protocol url) ''http''
                       then st\<lparr>isInterceptorEnabled := False, currentProxyUrl := None\<rparr>
                       else st
                   | None \<Rightarrow> st\<lparr>isInterceptorEnabled := False, currentProxyUrl := None\<rparr>)
             else st)"

section \<open>The fetch interception shim\<close>

text \<open>
  The first argument of \<^verbatim>\<open>fetch\<close>: a string, a \<^verbatim>\<open>URL\<close> object or a \<^verbatim>\<open>Request\<close> object.
  Requests, the options \<^verbatim>\<open>init\<close> and responses are the platform's and stay abstract.
  The platform gives the URL parser, the constructor \<^verbatim>\<open>new Request(url, request)\<close>,
  which can throw, and the getter \<^verbatim>\<open>request.url\<close>.

  \<^verbatim>\<open>patchedFetch\<close> calls \<^verbatim>\<open>logService.error\<close> inside its \<^verbatim>\<open>catch\<close> blocks, where a call
  that throws changes which request is dispatched. The module of \<^verbatim>\<open>logService\<close> is not
  among the sources, so what a call does is a parameter as well: for the message and
  the error it is given, \<open>platform_logError\<close> is \<open>None\<close> where the call returns and the
  thrown value where it throws.
\<close>

datatype 'req fetch_input = StringInput string | URLInput url | RequestInput 'req

record 'req platform =
  platform_newURL :: url_parser
  platform_newRequest :: "string \<Rightarrow> 'req \<Rightarrow> js_value + 'req"
  platform_requestUrl :: "'req \<Rightarrow> string"
  platform_logError :: "string \<Rightarrow> js_value \<Rightarrow> js_value option"

text \<open>
  What awaiting a call of a fetch function gives: the response, or (\<open>Inl\<close>) the value
  the promise rejects with.
\<close>

type_synonym ('req, 'init, 'resp) fetch_behaviour =
  "'req fetch_input \<Rightarrow> 'init \<Rightarrow> js_value + 'resp"

text \<open>
  The expression \<^verbatim>\<open>fetchError instanceof Error ? fetchError.message : String(fetchError)\<close> of
  the inner \<^verbatim>\<open>catch\<close>: the text, or (\<open>Inl\<close>) what the conversion throws.
\<close>

definition originalErrorMessage :: "js_value \<Rightarrow> js_value + string" where
  "originalErrorMessage fetchError =
     (case fetchError of
        ErrorValue e \<Rightarrow> Inr (err_message e)
      | OtherValue v \<Rightarrow> Inr v
      | UnconvertibleValue thrown \<Rightarrow> Inl thrown)"

text \<open>
  The message of the error that the inner \<^verbatim>\<open>catch\<close> builds, from the module's
  \<^verbatim>\<open>currentProxyUrl\<close>, the rewritten URL and the text \<^verbatim>\<open>originalError\<close>.
\<close>

definition errorDetails :: "url_parser \<Rightarrow> string option \<Rightarrow> string \<Rightarrow> string \<Rightarrow> string" where
  "errorDetails newURL proxyUrl newUrl originalError =
     (let sanitizedProxyUrl =
            (case proxyUrl of
               Some p \<Rightarrow> if p \<noteq> [] then sanitizeUrlForDisplay newURL p else ''[not configured]''
             | None \<Rightarrow> ''[not configured]'');
          sanitizedTargetUrl = sanitizeUrlForDisplay newURL newUrl
      in joinWith [CHR 0x0A]
           [''Network request failed. Original error: '' @ originalError,
            [],
            ''Proxy Configuration:'',
            ''  Proxy URL: '' @ sanitizedProxyUrl,
            ''  Target URL: '' @ sanitizedTargetUrl,
            [],
            ''Troubleshooting:'',
            ''  1. Verify proxy server is running and accessible'',
            ''  2. Check proxy URL format is correct (include protocol: http:// or https://)'',
            ''  3. Ensure proxy endpoint path matches your configuration'',
            ''  4. Check network connectivity and firewall settings'',
            ''  5. Verify CORS headers if using browser-based proxy''])"

text \<open>
  The inner \<^verbatim>\<open>try\<close> and \<^verbatim>\<open>catch\<close> of \<^verbatim>\<open>patchedFetch\<close>. In the \<^verbatim>\<open>try\<close> the rewritten request
  goes to the original fetch function; the \<^verbatim>\<open>Request\<close> constructor or the awaited call
  can throw. The \<^verbatim>\<open>catch\<close> logs, builds the message and throws the \<^verbatim>\<open>NetworkError\<close>; where
  its own statements throw (the call of \<^verbatim>\<open>logService.error\<close>, or the conversion of the
  caught value to a string), that value leaves the \<^verbatim>\<open>catch\<close> instead.
\<close>

definition dispatchRewritten ::
  "'req platform \<Rightarrow> ('req, 'init, 'resp) fetch_behaviour \<Rightarrow> string option \<Rightarrow> string
   \<Rightarrow> 'req option \<Rightarrow> 'init \<Rightarrow> js_value + 'resp" where
  "dispatchRewritten P originalFetchFn proxyUrl newUrl originalRequest init =
     (case (case originalRequest of
              Some request \<Rightarrow>
                (case platform_newRequest P newUrl request of
                   Inl thrown \<Rightarrow> Inl thrown
                 | Inr newReq \<Rightarrow> originalFetchFn (RequestInput newReq) init)
            | None \<Rightarrow> originalFetchFn (StringInput newUrl) init) of
        Inr response \<Rightarrow> Inr response
      | Inl fetchError \<Rightarrow>
          (case platform_logError P
                  ''[NetworkInterceptor] Fetch request failed after URL rewrite.'' fetchError of
             Some thrown \<Rightarrow> Inl thrown
           | None \<Rightarrow>
               (case originalErrorMessage fetchError of
                  Inl thrown \<Rightarrow> Inl thrown
                | Inr originalError \<Rightarrow>
                    Inl (ErrorValue
                           \<lparr>err_class = Error, err_name = ''NetworkError'',
                            err_message =
                              errorDetails (platform_newURL P) proxyUrl newUrl
                                originalError\<rparr>))))"

text \<open>
  The block \<^verbatim>\<open>Normalize input to string\<close> of \<^verbatim>\<open>patchedFetch\<close>: the values of \<^verbatim>\<open>urlStr\<close>
  and \<^verbatim>\<open>originalRequest\<close> after it.
\<close>

definition normalizeInput :: "'req platform \<Rightarrow> 'req fetch_input \<Rightarrow> string \<times> 'req option" where
  "normalizeInput P input =
     (case input of
        StringInput s \<Rightarrow> (s, None)
      | URLInput u \<Rightarrow> (href u, None)
      | RequestInput r \<Rightarrow> (platform_requestUrl P r, Some r))"

text \<open>
  The test \<^verbatim>\<open>e instanceof Error && e.name === 'NetworkError'\<close> of the outer \<^verbatim>\<open>catch\<close>.
\<close>

definition namedNetworkError :: "js_value \<Rightarrow> bool" where
  "namedNetworkError e =
     (case e of
        ErrorValue err \<Rightarrow> err_name err = ''NetworkError''
      | OtherValue v \<Rightarrow> False
      | UnconvertibleValue thrown \<Rightarrow> False)"

text \<open>
  \<^verbatim>\<open>patchedFetch\<close>, for the function \<open>originalFetchFn\<close> that \<^verbatim>\<open>originalFetch\<close> holds when
  the call is made. The guard \<^verbatim>\<open>!isInterceptorEnabled || !currentProxyUrl\<close> is written
  as the negation of a conjunction. The statements of the outer \<^verbatim>\<open>try\<close> that compute
  \<^verbatim>\<open>newUrl\<close> are \<^const>\<open>rewriteUrl\<close>: string operations on strings, which return. What
  reaches the outer \<^verbatim>\<open>catch\<close> is therefore what leaves the inner \<^verbatim>\<open>catch\<close>.
\<close>

definition patchedFetch ::
  "'req platform \<Rightarrow> interceptor_state \<Rightarrow> ('req, 'init, 'resp) fetch_behaviour
   \<Rightarrow> 'req fetch_input \<Rightarrow> 'init \<Rightarrow> js_value + 'resp" where
  "patchedFetch P st originalFetchFn input init =
     (case currentProxyUrl st of
        None \<Rightarrow> originalFetchFn input init
      | Some proxy \<Rightarrow>
          if \<not> (isInterceptorEnabled st \<and> proxy \<noteq> []) then originalFetchFn input init
          else
            (let (urlStr, originalRequest) = normalizeInput P input
             in if includes_str urlStr TARGET_HOST
                then (case dispatchRewritten P originalFetchFn (currentProxyUrl st)
                             (rewriteUrl urlStr proxy) originalRequest init of
                        Inr response \<Rightarrow> Inr response
                      | Inl e \<Rightarrow>
                          if namedNetworkError e then Inl e
                          else
                            (case platform_logError P
                                    ''[NetworkInterceptor] Failed to rewrite URL. Falling back to original URL.''
                                    e of
                               Some thrown \<Rightarrow> Inl thrown
                             | None \<Rightarrow> originalFetchFn input init))
                else originalFetchFn input init))"

section \<open>Mounting the interceptor\<close>

text \<open>
  Whether the environment lets \<^verbatim>\<open>window.fetch\<close> be assigned, and whether it lets
  \<^verbatim>\<open>Object.defineProperty\<close> replace it; each throws where it is not allowed.
\<close>

record environment =
  assignmentAllowed :: bool
  definePropertyAllowed :: bool

text \<open>\<^verbatim>\<open>networkInterceptor.mount\<close>.\<close>

definition mount :: "environment \<Rightarrow> interceptor_state \<Rightarrow> interceptor_state" where
  "mount env st =
     (if isAllModelChatInterceptor (window_fetch st) then st
      else
        (let st = st\<lparr>originalFetch := window_fetch st\<rparr>
         in if assignmentAllowed env then st\<lparr>window_fetch := PatchedFetch\<rparr>
            else if definePropertyAllowed env then st\<lparr>window_fetch := PatchedFetch\<rparr>
            else st))"

text \<open>
  A call of \<^verbatim>\<open>window.fetch\<close>, where \<open>foreign i\<close> is what the function number \<open>i\<close> does.
  \<^verbatim>\<open>patchedFetch\<close> calls whatever \<^verbatim>\<open>originalFetch\<close> holds at that moment; if that were
  \<^verbatim>\<open>patchedFetch\<close> itself, the call would never reach a transport, which is \<open>None\<close>.
\<close>

definition callWindowFetch ::
  "'req platform \<Rightarrow> (nat \<Rightarrow> ('req, 'init, 'resp) fetch_behaviour) \<Rightarrow> interceptor_state
   \<Rightarrow> 'req fetch_input \<Rightarrow> 'init \<Rightarrow> (js_value + 'resp) option" where
  "callWindowFetch P foreign st input init =
     (case window_fetch st of
        ForeignFetch i marked \<Rightarrow> Some (foreign i input init)
      | PatchedFetch \<Rightarrow>
          (case originalFetch st of
             ForeignFetch j marked \<Rightarrow> Some (patchedFetch P st (foreign j) input init)
           | PatchedFetch \<Rightarrow> None))"

section \<open>Fixtures for concrete runs\<close>

text \<open>
  A platform whose requests are a URL and a method, whose parser is
  \<^const>\<open>parseSimpleURL\<close> and whose \<^verbatim>\<open>Request\<close> constructor throws a \<^verbatim>\<open>TypeError\<close> for a
  URL that does not parse or that carries credentials, as a browser's does, and
  whose logging service returns; a transport that answers with the input it was
  called with; and a transport that fails with a given value.
\<close>

record request =
  request_url :: string
  request_method :: string

definition simplePlatform :: "request platform" where
  "simplePlatform =
     \<lparr>platform_newURL = parseSimpleURL,
      platform_newRequest =
        (\<lambda>newUrl r.
           case parseSimpleURL newUrl of
             None \<Rightarrow>
               Inl (ErrorValue \<lparr>err_class = TypeError, err_name = ''TypeError'',
                                err_message = ''Invalid URL''\<rparr>)
           | Some u \<Rightarrow>
               if url_username u = [] \<and> url_password u = []
               then Inr (r\<lparr>request_url := href u\<rparr>)
               else Inl (ErrorValue \<lparr>err_class = TypeError, err_name = ''TypeError'',
                                     err_message = ''URL includes credentials''\<rparr>)),
      platform_requestUrl = request_url,
      platform_logError = (\<lambda>message error. None)\<rparr>"

definition echoTransport :: "(request, unit, request fetch_input) fetch_behaviour" where
  "echoTransport input init = Inr input"

definition failingTransport ::
  "js_value \<Rightarrow> (request, unit, request fetch_input) fetch_behaviour" where
  "failingTransport thrown input init = Inl thrown"

text \<open>
  An assignment of behaviour to function numbers under which every foreign function is
  the echoing transport.
\<close>

definition echoForeign :: "nat \<Rightarrow> (request, unit, request fetch_input) fetch_behaviour" where
  "echoForeign i = echoTransport"

section \<open>Properties of the rewrite engine\<close>

lemma findFirst_None: "\<not> includes_str s pat \<Longrightarrow> findFirst pat s = None"
  by (induction s) auto

lemma replace_str_absent: "\<not> includes_str s pat \<Longrightarrow> replace_str s pat template = s"
  by (simp add: replace_str_def findFirst_None)

text \<open>
  C6: for the original URL
  \<^verbatim>\<open>https://generativelanguage.googleapis.com/v1beta/models/foo:generateContent\<close> and the
  proxy base \<^verbatim>\<open>https://my-proxy.example/v1\<close> the rewrite engine produces exactly
  \<^verbatim>\<open>https://my-proxy.example/v1/models/foo:generateContent\<close>, with no duplicated
  \<^verbatim>\<open>v1beta\<close> segment.
\<close>

theorem rewriteUrl_scenario_v1:
  "rewriteUrl
     ''https://generativelanguage.googleapis.com/v1beta/models/foo:generateContent''
     ''https://my-proxy.example/v1''
   = ''https://my-proxy.example/v1/models/foo:generateContent''"
  by code_simp

lemma collapseSlashes_head: "\<exists>zs. collapseSlashes (c # xs) = c # zs"
  by (cases xs; cases "tl xs") auto

lemma collapseSlashes_second:
  "e \<noteq> CHR ''/'' \<Longrightarrow> collapseSlashes (d # e # rest) = d # collapseSlashes (e # rest)"
  by (cases rest) auto

lemma collapseSlashes_after_slash:
  assumes "ys = [] \<or> hd ys \<noteq> CHR ''/''"
  shows "collapseSlashes (c # CHR ''/'' # ys) = c # CHR ''/'' # collapseSlashes ys"
proof (cases ys)
  case Nil
  then show ?thesis by simp
next
  case (Cons y ys')
  with assms have "y \<noteq> CHR ''/''" by simp
  then show ?thesis
    unfolding Cons by (simp add: collapseSlashes_second)
qed

lemma dropWhile_slash_head:
  "dropWhile (\<lambda>x. x = CHR ''/'') rest = []
   \<or> hd (dropWhile (\<lambda>x. x = CHR ''/'') rest) \<noteq> CHR ''/''"
  using hd_dropWhile [of "\<lambda>x. x = CHR ''/''" rest] by blast

lemma collapseSlashes_keeps_head:
  assumes "ys = [] \<or> hd ys \<noteq> CHR ''/''"
  shows "collapseSlashes ys = [] \<or> hd (collapseSlashes ys) \<noteq> CHR ''/''"
proof (cases ys)
  case Nil
  then show ?thesis by simp
next
  case (Cons y ys')
  with assms have "y \<noteq> CHR ''/''" by simp
  moreover obtain zs where "collapseSlashes (y # ys') = y # zs"
    using collapseSlashes_head by blast
  ultimately show ?thesis unfolding Cons by simp
qed

text \<open>
  Where the scan finds no match at a character, it finds none at that character in
  the collapsed rest either: collapsing never puts two slashes where there were none.
\<close>

lemma collapseSlashes_no_new_match:
  assumes "\<not> (c \<noteq> CHR '':'' \<and> d = CHR ''/'' \<and> e = CHR ''/'')"
  shows "collapseSlashes (c # collapseSlashes (d # e # rest))
         = c # collapseSlashes (collapseSlashes (d # e # rest))"
proof (cases "c \<noteq> CHR '':'' \<and> d = CHR ''/''")
  case True
  with assms have e: "e \<noteq> CHR ''/''" by simp
  have "collapseSlashes (d # e # rest) = d # collapseSlashes (e # rest)"
    using e by (rule collapseSlashes_second)
  moreover obtain zs where "collapseSlashes (e # rest) = e # zs"
    using collapseSlashes_head by blast
  ultimately have ys: "collapseSlashes (d # e # rest) = d # e # zs" by simp
  show ?thesis unfolding ys using e by simp
next
  case False
  obtain zs where ys: "collapseSlashes (d # e # rest) = d # zs"
    using collapseSlashes_head by blast
  show ?thesis unfolding ys using False by (cases zs) auto
qed

lemma collapseSlashes_idem: "collapseSlashes (collapseSlashes xs) = collapseSlashes xs"
proof (induction xs rule: collapseSlashes.induct)
  case (1 c d e rest)
  show ?case
  proof (cases "c \<noteq> CHR '':'' \<and> d = CHR ''/'' \<and> e = CHR ''/''")
    case True
    let ?r = "dropWhile (\<lambda>x. x = CHR ''/'') rest"
    have "collapseSlashes ?r = [] \<or> hd (collapseSlashes ?r) \<noteq> CHR ''/''"
      using dropWhile_slash_head by (rule collapseSlashes_keeps_head)
    then have "collapseSlashes (c # CHR ''/'' # collapseSlashes ?r)
               = c # CHR ''/'' # collapseSlashes (collapseSlashes ?r)"
      by (rule collapseSlashes_after_slash)
    also have "collapseSlashes (collapseSlashes ?r) = collapseSlashes ?r"
      using True by (rule "1.IH"(1))
    finally have "collapseSlashes (c # CHR ''/'' # collapseSlashes ?r)
                  = c # CHR ''/'' # collapseSlashes ?r" .
    moreover have "collapseSlashes (c # d # e # rest) = c # CHR ''/'' # collapseSlashes ?r"
      using True by simp
    ultimately show ?thesis by simp
  next
    case False
    have "collapseSlashes (c # collapseSlashes (d # e # rest))
          = c # collapseSlashes (collapseSlashes (d # e # rest))"
      using False by (rule collapseSlashes_no_new_match)
    also have "collapseSlashes (collapseSlashes (d # e # rest)) = collapseSlashes (d # e # rest)"
      using False by (rule "1.IH"(2))
    finally have "collapseSlashes (c # collapseSlashes (d # e # rest))
                  = c # collapseSlashes (d # e # rest)" .
    moreover have "collapseSlashes (c # d # e # rest) = c # collapseSlashes (d # e # rest)"
      by (subst collapseSlashes.simps) (simp only: False if_False)
    ultimately show ?thesis by simp
  qed
qed simp_all

text \<open>A URL on which no substring rule applies only has its slashes collapsed.\<close>

lemma rewriteUrl_no_rule:
  assumes "\<not> ruleApplies s"
  shows "rewriteUrl s b = collapseSlashes s"
proof -
  have h1: "\<not> includes_str s ''https://generativelanguage.googleapis.com''"
    and h2: "\<not> includes_str s ''/v1/v1beta/''"
    and h3: "\<not> includes_str s ''/v1/v1/''"
    and h5: "\<not> includes_str s ''/publishers/google/v1beta/models''"
    and h6: "\<not> includes_str s ''/publishers/google/v1/models''"
    and h7: "\<not> includes_str s ''/v1beta/v1beta''"
    using assms unfolding ruleApplies_def by blast+
  have h4: "\<not> (includes_str s ''aiplatform.googleapis.com''
               \<and> \<not> includes_str s ''publishers/google''
               \<and> includes_str s ''/v1/models/'')"
    using assms unfolding ruleApplies_def by blast
  have r1: "replace_str s ''https://generativelanguage.googleapis.com'' b = s"
    using h1 by (rule replace_str_absent)
  have r3: "(if includes_str s ''aiplatform.googleapis.com''
                \<and> \<not> includes_str s ''publishers/google''
             then (if includes_str s ''/v1/models/''
                   then replace_str s ''/v1/models/'' ''/v1/publishers/google/models/''
                   else s)
             else s) = s"
    using h4 by auto
  show ?thesis
    unfolding rewriteUrl_def Let_def r1
    by (simp only: h2 h3 h5 h6 h7 if_False r3)
qed

lemma rewriteUrl_collapsed: "collapseSlashes (rewriteUrl u b) = rewriteUrl u b"
  unfolding rewriteUrl_def Let_def by (rule collapseSlashes_idem)

text \<open>
  C5, as the spec states it: applying the rule chain to its own output gives the same
  string. The code does not do that: a string replacement replaces the first
  occurrence only, so an output can still hold a pattern, which the second application
  then replaces. With the proxy base \<^verbatim>\<open>https://p.example/v1/v1\<close> the request
  \<^verbatim>\<open>https://generativelanguage.googleapis.com/v1/x\<close> becomes
  \<^verbatim>\<open>https://p.example/v1/v1/x\<close>, and that becomes \<^verbatim>\<open>https://p.example/v1/x\<close>.
\<close>

theorem rewriteUrl_not_idempotent:
  "rewriteUrl ''https://generativelanguage.googleapis.com/v1/x'' ''https://p.example/v1/v1''
     = ''https://p.example/v1/v1/x''
   \<and> rewriteUrl
       (rewriteUrl ''https://generativelanguage.googleapis.com/v1/x'' ''https://p.example/v1/v1'')
       ''https://p.example/v1/v1''
     = ''https://p.example/v1/x''"
  by code_simp

text \<open>
  C5, amended: when no rule's condition holds of the output any more (it holds
  neither the target origin nor one of the patterns of the rules), applying the rule
  chain to the output gives the output again.
\<close>

theorem rewriteUrl_idempotent_when_settled:
  "\<not> ruleApplies (rewriteUrl u b) \<Longrightarrow> rewriteUrl (rewriteUrl u b) b = rewriteUrl u b"
  by (simp add: rewriteUrl_no_rule rewriteUrl_collapsed)

theorem rewriteUrl_idempotent_when_settled_witness:
  "\<not> ruleApplies
        (rewriteUrl ''https://generativelanguage.googleapis.com/v1beta/models/foo''
           ''https://aiplatform.googleapis.com/v1'')
   \<and> rewriteUrl
        (rewriteUrl ''https://generativelanguage.googleapis.com/v1beta/models/foo''
           ''https://aiplatform.googleapis.com/v1'')
        ''https://aiplatform.googleapis.com/v1''
     = ''https://aiplatform.googleapis.com/v1/publishers/google/models/foo''"
proof -
  have out: "rewriteUrl ''https://generativelanguage.googleapis.com/v1beta/models/foo''
               ''https://aiplatform.googleapis.com/v1''
             = ''https://aiplatform.googleapis.com/v1/publishers/google/models/foo''"
    by code_simp
  have settled: "\<not> ruleApplies
                      (rewriteUrl ''https://generativelanguage.googleapis.com/v1beta/models/foo''
                         ''https://aiplatform.googleapis.com/v1'')"
    unfolding out by code_simp
  from rewriteUrl_idempotent_when_settled [OF settled] settled out show ?thesis
    by simp
qed


section \<open>Properties of the error utilities\<close>

text \<open>
  C10: for every context message and every original error value, \<^verbatim>\<open>createNetworkError\<close>
  returns an error whose name is exactly \<^verbatim>\<open>NetworkError\<close>, and \<^verbatim>\<open>isNetworkError\<close> is
  true of that result; and \<^verbatim>\<open>isNetworkError\<close> is false of every value that is not an
  instance of \<^verbatim>\<open>Error\<close>.
\<close>

theorem createNetworkError_roundtrip:
  "err_name (createNetworkError contextMessage originalError) = ''NetworkError''
   \<and> isNetworkError (ErrorValue (createNetworkError contextMessage originalError))
   \<and> \<not> isNetworkError (OtherValue v)
   \<and> \<not> isNetworkError (UnconvertibleValue thrown)"
  by (simp add: createNetworkError_def isNetworkError_def Let_def)

section \<open>Properties of the sanitizer\<close>

text \<open>
  C8: \<^verbatim>\<open>sanitizeUrlForDisplay\<close> never throws: its \<^verbatim>\<open>try\<close> block throws exactly when
  \<^verbatim>\<open>new URL\<close> does, and the \<^verbatim>\<open>catch\<close> turns that into a returned string. For every input
  that fails to parse as a URL it returns the fixed placeholder
  \<^verbatim>\<open>[malformed URL - unable to sanitize safely]\<close>, which owes nothing to the input.
\<close>

theorem sanitizeUrlForDisplay_malformed:
  "(sanitizeTry newURL url = None \<longleftrightarrow> newURL url = None)
   \<and> (newURL url = None \<longrightarrow>
        sanitizeUrlForDisplay newURL url = ''[malformed URL - unable to sanitize safely]'')"
  by (auto simp: sanitizeUrlForDisplay_def sanitizeTry_def Let_def split: option.splits prod.splits)

theorem sanitizeUrlForDisplay_malformed_witness:
  "parseSimpleURL ''not a url'' = None
   \<and> sanitizeUrlForDisplay parseSimpleURL ''not a url''
       = ''[malformed URL - unable to sanitize safely]''"
proof -
  have unparseable: "parseSimpleURL ''not a url'' = None"
    by code_simp
  with sanitizeUrlForDisplay_malformed [of parseSimpleURL "''not a url''"] show ?thesis
    by blast
qed

text \<open>
  C3 says that no query parameter with a sensitive name survives. The loop deletes
  from the list it iterates: after a deletion the pair that moved into the freed
  place is skipped. For \<^verbatim>\<open>https://api.example/v1/models?key=AAA&token=BBB\<close> the
  parameter \<^verbatim>\<open>token\<close> and its value are still in the result.
\<close>

theorem sanitizeUrlForDisplay_skips_parameter:
  "sanitizeUrlForDisplay parseSimpleURL ''https://api.example/v1/models?key=AAA&token=BBB''
   = ''https://api.example/v1/models?token=BBB#sensitive_params_removed''"
  by code_simp


section \<open>Properties of the configuration store\<close>

text \<open>
  C1, as the spec states it: after \<^verbatim>\<open>configure\<close> an enabled interceptor always has a
  proxy URL, and \<^verbatim>\<open>configure(true, null)\<close> ends in the state with \<^verbatim>\<open>enabled\<close> false and
  no proxy URL. The code validates only where a proxy URL is present:
  \<^verbatim>\<open>configure(true, null)\<close> stores \<^verbatim>\<open>enabled = true\<close> with \<^verbatim>\<open>proxyUrl = null\<close>.
\<close>

theorem configure_enabled_without_proxy:
  "isInterceptorEnabled
     (configure parseSimpleURL True None (moduleLoaded (ForeignFetch 0 False)))
   \<and> currentProxyUrl
       (configure parseSimpleURL True None (moduleLoaded (ForeignFetch 0 False))) = None"
  by (simp add: configure_def moduleLoaded_def)

text \<open>
  C1, amended. Take a call \<^verbatim>\<open>configure(enabled, proxyUrl)\<close> whose proxy URL is not one
  that parses with a protocol that begins with \<^verbatim>\<open>http\<close> and is neither \<^verbatim>\<open>http:\<close> nor
  \<^verbatim>\<open>https:\<close>. After it has returned:
  \<^item> if the interceptor is enabled and the stored proxy URL is a non-empty string, that
    string parses as a URL whose protocol is \<^verbatim>\<open>http:\<close> or \<^verbatim>\<open>https:\<close>;
  \<^item> if \<^verbatim>\<open>enabled\<close> was true and the proxy URL, less one trailing slash, is a non-empty
    string that parses with the protocol \<^verbatim>\<open>http:\<close> or \<^verbatim>\<open>https:\<close>, the interceptor is
    enabled and that string is stored;
  \<^item> if \<^verbatim>\<open>enabled\<close> was true and the proxy URL, less one trailing slash, is a non-empty
    string that does not parse, or parses with another protocol than \<^verbatim>\<open>http:\<close> and
    \<^verbatim>\<open>https:\<close>, the state is \<^verbatim>\<open>enabled = false\<close>, \<^verbatim>\<open>proxyUrl = null\<close>;
  \<^item> \<^verbatim>\<open>configure(true, null)\<close> leaves \<^verbatim>\<open>enabled = true\<close> with \<^verbatim>\<open>proxyUrl = null\<close>;
  \<^item> in every state without a non-empty proxy URL the shim forwards each call to
    the original fetch function as it is.
\<close>

theorem configure_validates:
  assumes "st' = configure newURL enabled proxyUrl st"
    and "\<forall>q url. proxyUrl = Some q \<and> newURL (stripTrailingSlash q) = Some url
                 \<and> startsWith (protocol url) ''http'' \<longrightarrow>
               protocol url = ''http:'' \<or> protocol url = ''https:''"
  shows "(\<forall>p. isInterceptorEnabled st' \<and> currentProxyUrl st' = Some p \<and> p \<noteq> [] \<longrightarrow>
              (\<exists>url. newURL p = Some url
                     \<and> (protocol url = ''http:'' \<or> protocol url = ''https:'')))
         \<and> (\<forall>q. enabled \<and> proxyUrl = Some q \<and> stripTrailingSlash q \<noteq> []
                  \<and> (\<exists>url. newURL (stripTrailingSlash q) = Some url
                            \<and> (protocol url = ''http:'' \<or> protocol url = ''https:'')) \<longrightarrow>
                isInterceptorEnabled st' \<and> currentProxyUrl st' = Some (stripTrailingSlash q))
         \<and> (\<forall>q. enabled \<and> proxyUrl = Some q \<and> stripTrailingSlash q \<noteq> []
                  \<and> (\<forall>url. newURL (stripTrailingSlash q) = Some url \<longrightarrow>
                             protocol url \<noteq> ''http:'' \<and> protocol url \<noteq> ''https:'') \<longrightarrow>
                \<not> isInterceptorEnabled st' \<and> currentProxyUrl st' = None)
         \<and> (enabled \<and> proxyUrl = None \<longrightarrow>
                isInterceptorEnabled st' \<and> currentProxyUrl st' = None)
         \<and> (currentProxyUrl st' = None \<or> currentProxyUrl st' = Some [] \<longrightarrow>
                patchedFetch P st' originalFetchFn input init = originalFetchFn input init)"
proof (intro conjI allI impI)
  fix p
  assume h: "isInterceptorEnabled st' \<and> currentProxyUrl st' = Some p \<and> p \<noteq> []"
  then obtain q where q: "proxyUrl = Some q" and p: "p = stripTrailingSlash q"
    unfolding assms(1) configure_def Let_def
    by (auto split: option.splits if_splits)
  from h have "\<exists>url. newURL p = Some url \<and> startsWith (protocol url) ''http''"
    unfolding assms(1) configure_def Let_def
    by (auto split: option.splits if_splits)
  then obtain url where url: "newURL p = Some url" "startsWith (protocol url) ''http''"
    by blast
  with assms(2) q p have "protocol url = ''http:'' \<or> protocol url = ''https:''"
    by blast
  with url show "\<exists>url. newURL p = Some url
                       \<and> (protocol url = ''http:'' \<or> protocol url = ''https:'')"
    by blast
next
  fix q
  assume h: "enabled \<and> proxyUrl = Some q \<and> stripTrailingSlash q \<noteq> []
             \<and> (\<exists>url. newURL (stripTrailingSlash q) = Some url
                       \<and> (protocol url = ''http:'' \<or> protocol url = ''https:''))"
  then have nonempty: "q \<noteq> []" by (auto simp: stripTrailingSlash_def)
  from h obtain url where url: "newURL (stripTrailingSlash q) = Some url"
    and "protocol url = ''http:'' \<or> protocol url = ''https:''"
    by blast
  then have "startsWith (protocol url) ''http''" by auto
  with h nonempty url
  show "isInterceptorEnabled st'" and "currentProxyUrl st' = Some (stripTrailingSlash q)"
    unfolding assms(1) configure_def Let_def by auto
next
  fix q
  assume h: "enabled \<and> proxyUrl = Some q \<and> stripTrailingSlash q \<noteq> []
             \<and> (\<forall>url. newURL (stripTrailingSlash q) = Some url \<longrightarrow>
                        protocol url \<noteq> ''http:'' \<and> protocol url \<noteq> ''https:'')"
  then have nonempty: "q \<noteq> []" by (auto simp: stripTrailingSlash_def)
  from h assms(2)
  have rejected: "\<forall>url. newURL (stripTrailingSlash q) = Some url \<longrightarrow>
                        \<not> startsWith (protocol url) ''http''"
    by blast
  with h nonempty show "\<not> isInterceptorEnabled st'" and "currentProxyUrl st' = None"
    unfolding assms(1) configure_def Let_def
    by (auto split: option.splits)
next
  assume "enabled \<and> proxyUrl = None"
  then show "isInterceptorEnabled st'" and "currentProxyUrl st' = None"
    unfolding assms(1) configure_def Let_def by auto
next
  assume "currentProxyUrl st' = None \<or> currentProxyUrl st' = Some []"
  then show "patchedFetch P st' originalFetchFn input init = originalFetchFn input init"
    unfolding patchedFetch_def by auto
qed

theorem configure_validates_witness:
  "(isInterceptorEnabled
      (configure parseSimpleURL True (Some ''https://p.example/'')
         (moduleLoaded (ForeignFetch 0 False)))
    \<and> currentProxyUrl
        (configure parseSimpleURL True (Some ''https://p.example/'')
           (moduleLoaded (ForeignFetch 0 False))) = Some ''https://p.example''
    \<and> (\<exists>url. parseSimpleURL ''https://p.example'' = Some url
              \<and> (protocol url = ''http:'' \<or> protocol url = ''https:'')))
   \<and> (\<not> isInterceptorEnabled
           (configure parseSimpleURL True (Some ''ftp://host'')
              (moduleLoaded (ForeignFetch 0 False)))
       \<and> currentProxyUrl
           (configure parseSimpleURL True (Some ''ftp://host'')
              (moduleLoaded (ForeignFetch 0 False))) = None)
   \<and> (\<not> isInterceptorEnabled
           (configure parseSimpleURL True (Some ''not a url'')
              (moduleLoaded (ForeignFetch 0 False)))
       \<and> currentProxyUrl
           (configure parseSimpleURL True (Some ''not a url'')
              (moduleLoaded (ForeignFetch 0 False))) = None)"
proof -
  let ?s = "moduleLoaded (ForeignFetch 0 False)"
  have https_strip: "stripTrailingSlash ''https://p.example/'' = ''https://p.example''"
    by code_simp
  have https_parse: "parseSimpleURL ''https://p.example''
                     = Some \<lparr>url_scheme = ''https'', url_username = [], url_password = [],
                             url_host = Some ''p.example'', url_pathname = ''/'',
                             url_query = None, url_fragment = None\<rparr>"
    by code_simp
  have https_side:
    "\<forall>q url. Some ''https://p.example/'' = Some q
             \<and> parseSimpleURL (stripTrailingSlash q) = Some url
             \<and> startsWith (protocol url) ''http'' \<longrightarrow>
           protocol url = ''http:'' \<or> protocol url = ''https:''"
    using https_strip https_parse by (auto simp: protocol_def)
  have good:
    "isInterceptorEnabled (configure parseSimpleURL True (Some ''https://p.example/'') ?s)
     \<and> currentProxyUrl (configure parseSimpleURL True (Some ''https://p.example/'') ?s)
       = Some ''https://p.example''
     \<and> ''https://p.example'' \<noteq> []"
    by code_simp
  have parsed: "\<exists>url. parseSimpleURL ''https://p.example'' = Some url
                      \<and> (protocol url = ''http:'' \<or> protocol url = ''https:'')"
    using good
    by (rule configure_validates
               [where st = ?s and newURL = parseSimpleURL and enabled = True
                  and proxyUrl = "Some ''https://p.example/''",
                OF refl https_side, THEN conjunct1, rule_format])
  have ftp_strip: "stripTrailingSlash ''ftp://host'' = ''ftp://host''"
    by code_simp
  have ftp_parse: "parseSimpleURL ''ftp://host''
                   = Some \<lparr>url_scheme = ''ftp'', url_username = [], url_password = [],
                           url_host = Some ''host'', url_pathname = ''/'',
                           url_query = None, url_fragment = None\<rparr>"
    by code_simp
  have ftp_side:
    "\<forall>q url. Some ''ftp://host'' = Some q
             \<and> parseSimpleURL (stripTrailingSlash q) = Some url
             \<and> startsWith (protocol url) ''http'' \<longrightarrow>
           protocol url = ''http:'' \<or> protocol url = ''https:''"
    using ftp_strip ftp_parse by (auto simp: protocol_def)
  have ftp_invalid:
    "True \<and> Some ''ftp://host'' = Some ''ftp://host'' \<and> stripTrailingSlash ''ftp://host'' \<noteq> []
     \<and> (\<forall>url. parseSimpleURL (stripTrailingSlash ''ftp://host'') = Some url \<longrightarrow>
                protocol url \<noteq> ''http:'' \<and> protocol url \<noteq> ''https:'')"
    unfolding ftp_strip ftp_parse by (simp add: protocol_def)
  have ftp:
    "\<not> isInterceptorEnabled (configure parseSimpleURL True (Some ''ftp://host'') ?s)
     \<and> currentProxyUrl (configure parseSimpleURL True (Some ''ftp://host'') ?s) = None"
    using ftp_invalid
    by (rule configure_validates
               [where st = ?s and newURL = parseSimpleURL and enabled = True
                  and proxyUrl = "Some ''ftp://host''",
                OF refl ftp_side,
                THEN conjunct2, THEN conjunct2, THEN conjunct1, rule_format])
  have text_strip: "stripTrailingSlash ''not a url'' = ''not a url''"
    by code_simp
  have text_parse: "parseSimpleURL ''not a url'' = None"
    by code_simp
  have text_side:
    "\<forall>q url. Some ''not a url'' = Some q
             \<and> parseSimpleURL (stripTrailingSlash q) = Some url
             \<and> startsWith (protocol url) ''http'' \<longrightarrow>
           protocol url = ''http:'' \<or> protocol url = ''https:''"
    using text_strip text_parse by auto
  have text_invalid:
    "True \<and> Some ''not a url'' = Some ''not a url'' \<and> stripTrailingSlash ''not a url'' \<noteq> []
     \<and> (\<forall>url. parseSimpleURL (stripTrailingSlash ''not a url'') = Some url \<longrightarrow>
                protocol url \<noteq> ''http:'' \<and> protocol url \<noteq> ''https:'')"
    unfolding text_strip text_parse by simp
  have plain:
    "\<not> isInterceptorEnabled (configure parseSimpleURL True (Some ''not a url'') ?s)
     \<and> currentProxyUrl (configure parseSimpleURL True (Some ''not a url'') ?s) = None"
    using text_invalid
    by (rule configure_validates
               [where st = ?s and newURL = parseSimpleURL and enabled = True
                  and proxyUrl = "Some ''not a url''",
                OF refl text_side,
                THEN conjunct2, THEN conjunct2, THEN conjunct1, rule_format])
  from good parsed ftp plain show ?thesis by (intro conjI) (elim conjE, assumption)+
qed

text \<open>
  The scheme test of \<^verbatim>\<open>configure\<close> is \<^verbatim>\<open>url.protocol.startsWith('http')\<close>, while its
  diagnostic names \<^verbatim>\<open>http:\<close> and \<^verbatim>\<open>https:\<close> as the protocols it expects. A proxy URL
  whose protocol only begins with \<^verbatim>\<open>http\<close> passes the test and stays enabled.
\<close>

lemma configure_keeps_httpx:
  "isInterceptorEnabled
     (configure parseSimpleURL True (Some ''httpx://host'') (moduleLoaded (ForeignFetch 0 False)))
   \<and> currentProxyUrl
       (configure parseSimpleURL True (Some ''httpx://host'') (moduleLoaded (ForeignFetch 0 False)))
     = Some ''httpx://host''"
  by code_simp


section \<open>Properties of the shim\<close>

lemma startsWith_append: "startsWith (t @ b) t"
  by (induction t) auto

lemma includes_str_prefix: "includes_str (t @ b) t"
  by (cases "t @ b") (use startsWith_append [of t b] in auto)

lemma includes_str_append: "includes_str (a @ t @ b) t"
  by (induction a) (auto simp: includes_str_prefix)

text \<open>
  What the message of the inner \<^verbatim>\<open>catch\<close> holds: the text of the original error, the
  sanitized proxy URL and the sanitized rewritten URL.
\<close>

lemma errorDetails_contents:
  assumes "proxy \<noteq> []"
  shows "includes_str (errorDetails newURL (Some proxy) newUrl originalError) originalError"
    and "includes_str (errorDetails newURL (Some proxy) newUrl originalError)
           (sanitizeUrlForDisplay newURL proxy)"
    and "includes_str (errorDetails newURL (Some proxy) newUrl originalError)
           (sanitizeUrlForDisplay newURL newUrl)"
proof -
  let ?tail = "joinWith [CHR 0x0A]
                 [[], ''Troubleshooting:'',
                  ''  1. Verify proxy server is running and accessible'',
                  ''  2. Check proxy URL format is correct (include protocol: http:// or https://)'',
                  ''  3. Ensure proxy endpoint path matches your configuration'',
                  ''  4. Check network connectivity and firewall settings'',
                  ''  5. Verify CORS headers if using browser-based proxy'']"
  have shape:
    "errorDetails newURL (Some proxy) newUrl originalError
     = ''Network request failed. Original error: '' @ originalError
       @ ([CHR 0x0A, CHR 0x0A] @ ''Proxy Configuration:'' @ [CHR 0x0A] @ ''  Proxy URL: '')
       @ sanitizeUrlForDisplay newURL proxy
       @ ([CHR 0x0A] @ ''  Target URL: '')
       @ sanitizeUrlForDisplay newURL newUrl
       @ ([CHR 0x0A] @ ?tail)"
    using assms by (simp add: errorDetails_def Let_def)
  show "includes_str (errorDetails newURL (Some proxy) newUrl originalError) originalError"
    unfolding shape by (rule includes_str_append)
  show "includes_str (errorDetails newURL (Some proxy) newUrl originalError)
          (sanitizeUrlForDisplay newURL proxy)"
    unfolding shape
    using includes_str_append
            [of "''Network request failed. Original error: '' @ originalError
                 @ ([CHR 0x0A, CHR 0x0A] @ ''Proxy Configuration:'' @ [CHR 0x0A]
                    @ ''  Proxy URL: '')"
                "sanitizeUrlForDisplay newURL proxy"]
    by (simp only: append_assoc)
  show "includes_str (errorDetails newURL (Some proxy) newUrl originalError)
          (sanitizeUrlForDisplay newURL newUrl)"
    unfolding shape
    using includes_str_append
            [of "''Network request failed. Original error: '' @ originalError
                 @ ([CHR 0x0A, CHR 0x0A] @ ''Proxy Configuration:'' @ [CHR 0x0A]
                    @ ''  Proxy URL: '')
                 @ sanitizeUrlForDisplay newURL proxy
                 @ ([CHR 0x0A] @ ''  Target URL: '')"
                "sanitizeUrlForDisplay newURL newUrl"]
    by (simp only: append_assoc)
qed

text \<open>
  The shim on a request that passes the guard and the test of the URL string: the
  rewritten request is dispatched, a response is returned, an error named
  \<^verbatim>\<open>NetworkError\<close> is thrown again, and anything else that reaches the outer \<^verbatim>\<open>catch\<close>
  is logged and followed by the dispatch of the original input.
\<close>

lemma patchedFetch_rewriting:
  assumes "isInterceptorEnabled st" and "currentProxyUrl st = Some proxy" and "proxy \<noteq> []"
    and "includes_str (fst (normalizeInput P input)) TARGET_HOST"
  shows "patchedFetch P st f input init
         = (case dispatchRewritten P f (Some proxy)
                   (rewriteUrl (fst (normalizeInput P input)) proxy)
                   (snd (normalizeInput P input)) init of
              Inr response \<Rightarrow> Inr response
            | Inl e \<Rightarrow>
                if namedNetworkError e then Inl e
                else
                  (case platform_logError P
                          ''[NetworkInterceptor] Failed to rewrite URL. Falling back to original URL.''
                          e of
                     Some thrown \<Rightarrow> Inl thrown
                   | None \<Rightarrow> f input init))"
  using assms by (simp add: patchedFetch_def Let_def case_prod_beta)

text \<open>
  When the transport rejects a rewritten request that was made with a URL string or a
  \<^verbatim>\<open>URL\<close> object, the logging service returns and the text of the rejection value can
  be read, the shim rejects with the error that the inner \<^verbatim>\<open>catch\<close> builds: its name
  is \<^verbatim>\<open>NetworkError\<close> and its message is \<open>errorDetails\<close>. The fallback of the outer
  \<^verbatim>\<open>catch\<close> is not taken.
\<close>

lemma patchedFetch_transport_failure:
  assumes "isInterceptorEnabled st" and "currentProxyUrl st = Some proxy" and "proxy \<noteq> []"
    and "normalizeInput P input = (urlStr, None)"
    and "includes_str urlStr TARGET_HOST"
    and "f (StringInput (rewriteUrl urlStr proxy)) init = Inl fetchError"
    and "platform_logError P
           ''[NetworkInterceptor] Fetch request failed after URL rewrite.'' fetchError = None"
    and "originalErrorMessage fetchError = Inr originalError"
  shows "patchedFetch P st f input init
         = Inl (ErrorValue
                  \<lparr>err_class = Error, err_name = ''NetworkError'',
                   err_message =
                     errorDetails (platform_newURL P) (Some proxy) (rewriteUrl urlStr proxy)
                       originalError\<rparr>)"
proof -
  have "dispatchRewritten P f (Some proxy) (rewriteUrl urlStr proxy) None init
        = Inl (ErrorValue
                 \<lparr>err_class = Error, err_name = ''NetworkError'',
                  err_message =
                    errorDetails (platform_newURL P) (Some proxy) (rewriteUrl urlStr proxy)
                      originalError\<rparr>)"
    using assms(6-8) by (simp add: dispatchRewritten_def)
  then show ?thesis
    using patchedFetch_rewriting [of st proxy P input f init] assms(1-5)
    by (simp add: namedNetworkError_def)
qed

text \<open>
  The one way into the fallback of the outer \<^verbatim>\<open>catch\<close>: the transport rejects with a
  value whose conversion to a string throws something that is no error named
  \<^verbatim>\<open>NetworkError\<close>. With a logging service that returns, the original input is then
  dispatched with the caller's options, and the caller gets what that call gives.
\<close>

lemma patchedFetch_inner_catch_throws:
  assumes "isInterceptorEnabled st" and "currentProxyUrl st = Some proxy" and "proxy \<noteq> []"
    and "normalizeInput P input = (urlStr, None)"
    and "includes_str urlStr TARGET_HOST"
    and "f (StringInput (rewriteUrl urlStr proxy)) init = Inl (UnconvertibleValue thrown)"
    and "\<not> namedNetworkError thrown"
    and "\<forall>message error. platform_logError P message error = None"
  shows "patchedFetch P st f input init = f input init"
proof -
  have "dispatchRewritten P f (Some proxy) (rewriteUrl urlStr proxy) None init = Inl thrown"
    using assms(6,8) by (simp add: dispatchRewritten_def originalErrorMessage_def)
  then show ?thesis
    using patchedFetch_rewriting [of st proxy P input f init] assms(1-5,7,8)
    by simp
qed

text \<open>
  C2 says that a request whose URL has another host than the target host is forwarded
  with its input unmodified. The code's comment says the same (\<^verbatim>\<open>Check if the request
  is targeting the Gemini API host\<close>), but the test is whether the URL string contains
  the target host's name anywhere. The URL
  \<^verbatim>\<open>https://other.example/?next=https://generativelanguage.googleapis.com/x\<close> has the
  host \<^verbatim>\<open>other.example\<close>, and the transport is called with a rewritten URL.
\<close>

theorem patchedFetch_rewrites_other_host:
  "map_option url_host
     (parseSimpleURL ''https://other.example/?next=https://generativelanguage.googleapis.com/x'')
   = Some (Some ''other.example'')
   \<and> patchedFetch simplePlatform
       (configure parseSimpleURL True (Some ''https://p.example'')
          (moduleLoaded (ForeignFetch 0 False)))
       echoTransport
       (StringInput ''https://other.example/?next=https://generativelanguage.googleapis.com/x'')
       ()
     = Inr (StringInput ''https://other.example/?next=https://p.example/x'')"
  by code_simp

text \<open>
  C4 says that the message of the raised \<^verbatim>\<open>NetworkError\<close> holds no sensitive value of
  the unsanitized URLs. The message holds what \<^verbatim>\<open>sanitizeUrlForDisplay\<close> returns for
  the rewritten URL, and that function skips the parameter after one it has
  deleted. For a request to
  \<^verbatim>\<open>https://generativelanguage.googleapis.com/v1beta/models/m?key=AAA&token=BBB\<close> whose
  transport call rejects, the raised error is named \<^verbatim>\<open>NetworkError\<close> and its message
  has the line with \<^verbatim>\<open>token=BBB\<close> in it.
\<close>

theorem patchedFetch_error_message_keeps_parameter:
  "(case patchedFetch simplePlatform
           (configure parseSimpleURL True (Some ''https://p.example'')
              (moduleLoaded (ForeignFetch 0 False)))
           (failingTransport
              (ErrorValue \<lparr>err_class = TypeError, err_name = ''TypeError'',
                           err_message = ''Failed to fetch''\<rparr>))
           (StringInput
              ''https://generativelanguage.googleapis.com/v1beta/models/m?key=AAA&token=BBB'')
           () of
      Inl (ErrorValue e) \<Rightarrow>
        err_name e = ''NetworkError''
        \<and> includes_str (err_message e) ''Original error: Failed to fetch''
        \<and> includes_str (err_message e) ''  Proxy URL: https://p.example/''
        \<and> includes_str (err_message e)
            ''  Target URL: https://p.example/v1beta/models/m?token=BBB#sensitive_params_removed''
    | Inl (OtherValue v) \<Rightarrow> False
    | Inl (UnconvertibleValue thrown) \<Rightarrow> False
    | Inr response \<Rightarrow> False)"
  by code_simp


section \<open>Properties of mounting\<close>

text \<open>
  C9, as the spec states it: after two calls of \<^verbatim>\<open>mount\<close>, from any starting state, exactly
  one interception layer is active. Where the environment lets \<^verbatim>\<open>window.fetch\<close> neither
  be assigned nor be redefined, \<^verbatim>\<open>mount\<close> reports the failure and leaves the original
  function in place: after two calls no layer is active, and a request to the target
  host goes to the transport as it is, although proxying is configured.
\<close>

theorem mount_twice_locked_environment:
  "window_fetch
     (mount \<lparr>assignmentAllowed = False, definePropertyAllowed = False\<rparr>
        (mount \<lparr>assignmentAllowed = False, definePropertyAllowed = False\<rparr>
           (moduleLoaded (ForeignFetch 0 False))))
   = ForeignFetch 0 False
   \<and> callWindowFetch simplePlatform echoForeign
       (configure parseSimpleURL True (Some ''https://p.example'')
          (mount \<lparr>assignmentAllowed = False, definePropertyAllowed = False\<rparr>
             (mount \<lparr>assignmentAllowed = False, definePropertyAllowed = False\<rparr>
                (moduleLoaded (ForeignFetch 0 False)))))
       (StringInput ''https://generativelanguage.googleapis.com/v1beta/models/m'') ()
     = Some (Inr (StringInput ''https://generativelanguage.googleapis.com/v1beta/models/m''))"
  by code_simp

text \<open>
  C9, amended. In every environment and from every state, a second call of \<^verbatim>\<open>mount\<close>
  changes nothing. Where the environment lets \<^verbatim>\<open>window.fetch\<close> be replaced (by
  assignment or by \<^verbatim>\<open>Object.defineProperty\<close>) and the function installed before the
  first call does not carry the marker, two calls leave \<^verbatim>\<open>patchedFetch\<close> installed with
  that function as its original fetch function, so that a request dispatched
  afterwards passes through \<^verbatim>\<open>patchedFetch\<close> once and then reaches that function. Where
  the installed function carries the marker already, both calls do nothing.
\<close>

theorem mount_twice:
  "mount env (mount env st) = mount env st
   \<and> ((assignmentAllowed env \<or> definePropertyAllowed env)
        \<and> window_fetch st = ForeignFetch i False \<longrightarrow>
          window_fetch (mount env (mount env st)) = PatchedFetch
          \<and> originalFetch (mount env (mount env st)) = ForeignFetch i False
          \<and> callWindowFetch P foreign (mount env (mount env st)) input init
            = Some (patchedFetch P (mount env (mount env st)) (foreign i) input init))
   \<and> (isAllModelChatInterceptor (window_fetch st) \<longrightarrow> mount env (mount env st) = st)"
  by (auto simp: mount_def Let_def callWindowFetch_def)

theorem mount_twice_witness:
  "window_fetch
     (mount \<lparr>assignmentAllowed = False, definePropertyAllowed = True\<rparr>
        (mount \<lparr>assignmentAllowed = False, definePropertyAllowed = True\<rparr>
           (configure parseSimpleURL True (Some ''https://p.example'')
              (moduleLoaded (ForeignFetch 0 False)))))
   = PatchedFetch
   \<and> originalFetch
       (mount \<lparr>assignmentAllowed = False, definePropertyAllowed = True\<rparr>
          (mount \<lparr>assignmentAllowed = False, definePropertyAllowed = True\<rparr>
             (configure parseSimpleURL True (Some ''https://p.example'')
                (moduleLoaded (ForeignFetch 0 False)))))
     = ForeignFetch 0 False
   \<and> callWindowFetch simplePlatform echoForeign
       (mount \<lparr>assignmentAllowed = False, definePropertyAllowed = True\<rparr>
          (mount \<lparr>assignmentAllowed = False, definePropertyAllowed = True\<rparr>
             (configure parseSimpleURL True (Some ''https://p.example'')
                (moduleLoaded (ForeignFetch 0 False)))))
       (StringInput ''https://generativelanguage.googleapis.com/v1beta/models/m'') ()
     = Some (Inr (StringInput ''https://p.example/v1beta/models/m''))"
proof -
  let ?env = "\<lparr>assignmentAllowed = False, definePropertyAllowed = True\<rparr>"
  let ?st = "configure parseSimpleURL True (Some ''https://p.example'')
               (moduleLoaded (ForeignFetch 0 False))"
  let ?input = "StringInput ''https://generativelanguage.googleapis.com/v1beta/models/m''
                  :: request fetch_input"
  have allowed: "(assignmentAllowed ?env \<or> definePropertyAllowed ?env)
                 \<and> window_fetch ?st = ForeignFetch 0 False"
    by code_simp
  have mounted:
    "window_fetch (mount ?env (mount ?env ?st)) = PatchedFetch
     \<and> originalFetch (mount ?env (mount ?env ?st)) = ForeignFetch 0 False
     \<and> callWindowFetch simplePlatform echoForeign (mount ?env (mount ?env ?st)) ?input ()
       = Some (patchedFetch simplePlatform (mount ?env (mount ?env ?st)) (echoForeign 0)
                 ?input ())"
    using allowed
    by (rule mount_twice [of ?env ?st 0 simplePlatform echoForeign ?input "()",
                          THEN conjunct2, THEN conjunct1, rule_format])
  have once: "patchedFetch simplePlatform (mount ?env (mount ?env ?st)) (echoForeign 0)
                ?input ()
              = Inr (StringInput ''https://p.example/v1beta/models/m'')"
    by code_simp
  from mounted show ?thesis
    unfolding once by blast
qed

end
